theory Spec2Isabelle
  imports Main "HOL-Library.AList"
begin

section \<open>Python values, exceptions and outcomes\<close>

text \<open>
  The exceptions that leave a method of the modelled code. An \<open>sqlite3.Error\<close> never
  does: every statement of the persistence adapter runs inside
  \<open>try ... except sqlite3.Error\<close>, so a failed statement is a value (its message)
  that the method prints.
\<close>

datatype error =
    ValueError string
  | TypeError
  | AttributeError string
  | OverflowError

text \<open>
  A method that mutates objects and may raise half-way: the state it leaves behind is
  part of the result in both cases.
\<close>

datatype 'a outcome = Returned 'a | Raised error 'a

fun state_of :: "'a outcome \<Rightarrow> 'a" where
  "state_of (Returned s) = s"
| "state_of (Raised e s) = s"

fun and_then :: "'a outcome \<Rightarrow> ('a \<Rightarrow> 'a outcome) \<Rightarrow> 'a outcome" where
  "and_then (Returned s) f = f s"
| "and_then (Raised e s) f = Raised e s"

text \<open>
  The values an \<open>age\<close> argument can hold. Names, emails and ids are strings, as the
  docstrings type them; the age is kept dynamic because its check is a comparison that
  behaves differently on each Python type. \<open>PyFloat m e\<close> is the finite float
  \<open>m * 2 ^ e\<close>.
\<close>

datatype pyval = PyInt int | PyFloat int int | PyStr string | PyNone

text \<open>\<open>age >= 0\<close>: a comparison of a number with 0, a TypeError on str and None.\<close>

fun ge_zero :: "pyval \<Rightarrow> error + bool" where
  "ge_zero (PyInt n) = Inr (0 \<le> n)"
| "ge_zero (PyFloat m e) = Inr (0 \<le> m)"
| "ge_zero (PyStr s) = Inl TypeError"
| "ge_zero PyNone = Inl TypeError"

section \<open>Regular expressions of the two email patterns\<close>

text \<open>
  Both patterns are a sequence of single characters and of \<open>+\<close>-repetitions of a
  character class, anchored by \<open>^\<close> (implied by \<open>re.match\<close>) and \<open>$\<close>.
  A class is \<open>\S\<close>, a literal or a bracket expression of ranges.
\<close>

datatype atom = NonSpace | Lit char | Bracket "(char \<times> char) list"

datatype item = One atom | OneOrMore atom

text \<open>
  Whitespace as \<open>\s\<close> sees it on a \<open>str\<close> pattern, for code points below 256:
  tab to carriage return, the four separators 0x1C..0x1F, space, NEL and no-break space.
\<close>

definition is_space :: "char \<Rightarrow> bool" where
  "is_space c = (let n = (of_char c :: nat) in
     (9 \<le> n \<and> n \<le> 13) \<or> (28 \<le> n \<and> n \<le> 32) \<or> n = 133 \<or> n = 160)"

fun in_ranges :: "(char \<times> char) list \<Rightarrow> char \<Rightarrow> bool" where
  "in_ranges [] c = False"
| "in_ranges ((lo, hi) # rs) c =
     (((of_char lo :: nat) \<le> of_char c \<and> (of_char c :: nat) \<le> of_char hi) \<or> in_ranges rs c)"

fun atom_ok :: "atom \<Rightarrow> char \<Rightarrow> bool" where
  "atom_ok NonSpace c = (\<not> is_space c)"
| "atom_ok (Lit d) c = (c = d)"
| "atom_ok (Bracket rs) c = in_ranges rs c"

text \<open>\<open>$\<close> matches at the end of the string and just before a final newline.\<close>

definition at_end :: "string \<Rightarrow> bool" where
  "at_end s = (s = [] \<or> s = [CHR 0x0A])"

text \<open>
  The backtracking matcher: a repetition first tries to take one more character
  (greedy), then to go on with the rest of the pattern.
\<close>

fun re_match :: "item list \<Rightarrow> string \<Rightarrow> bool" where
  "re_match [] s = at_end s"
| "re_match (One a # p) [] = False"
| "re_match (One a # p) (c # s) = (atom_ok a c \<and> re_match p s)"
| "re_match (OneOrMore a # p) [] = False"
| "re_match (OneOrMore a # p) (c # s) =
     (atom_ok a c \<and> (re_match (OneOrMore a # p) s \<or> re_match p s))"

section \<open>models.py: Person\<close>

record person =
  name :: string
  age :: pyval
  email :: string

text \<open>\<open>r'^\S+@\S+\.\S+$'\<close>\<close>

definition pattern :: "item list" where
  "pattern = [OneOrMore NonSpace, One (Lit CHR ''@''), OneOrMore NonSpace,
              One (Lit CHR ''.''), OneOrMore NonSpace]"

definition validate_email :: "string \<Rightarrow> bool" where
  "validate_email em = re_match pattern em"

text \<open>
  \<open>Person.__init__\<close>: the name is stored unchecked, then the age test, then the email
  test. A constructor that raises produces no instance, so the result is a sum.
\<close>

definition Person_init :: "string \<Rightarrow> pyval \<Rightarrow> string \<Rightarrow> error + person" where
  "Person_init nm ag em =
     (case ge_zero ag of
        Inl e \<Rightarrow> Inl e
      | Inr nonneg \<Rightarrow>
          if nonneg then
            (if validate_email em then Inr \<lparr>name = nm, age = ag, email = em\<rparr>
             else Inl (ValueError ''Invalid email format''))
          else Inl (ValueError ''Age cannot be negative''))"

definition get_email :: "'a person_scheme \<Rightarrow> string" where
  "get_email self = email self"

definition set_email :: "'a person_scheme \<Rightarrow> string \<Rightarrow> 'a person_scheme outcome" where
  "set_email self em =
     (if validate_email em then Returned (self\<lparr>email := em\<rparr>)
      else Raised (ValueError ''Invalid email format'') self)"

text \<open>The dictionary of \<open>Person.to_dict\<close>, with its three keys.\<close>

record person_dict =
  k_name :: string
  k_age :: pyval
  k_email :: string

definition Person_to_dict :: "'a person_scheme \<Rightarrow> person_dict" where
  "Person_to_dict self = \<lparr>k_name = name self, k_age = age self, k_email = email self\<rparr>"

definition Person_from_dict :: "'a person_dict_scheme \<Rightarrow> error + person" where
  "Person_from_dict data = Person_init (k_name data) (k_age data) (k_email data)"

section \<open>models.py: Student, Instructor, Course and the object store\<close>

text \<open>
  Objects are referred to by address; \<open>in\<close>, \<open>list.remove\<close> and \<open>==\<close> on them
  compare addresses, since no class defines \<open>__eq__\<close>. Each class has its own
  address space.
\<close>

type_synonym ref = nat

record student = person +
  student_id :: string
  registered_courses :: "ref list"

record instructor = person +
  instructor_id :: string
  assigned_courses :: "ref list"

record course =
  course_id :: string
  course_name :: string
  instructor :: "ref option"
  enrolled_students :: "ref list"

text \<open>
  The store maps every address to the object it holds; the three counters are the next
  addresses a constructor call hands out.
\<close>

record heap =
  student_objs :: "ref \<Rightarrow> student"
  instructor_objs :: "ref \<Rightarrow> instructor"
  course_objs :: "ref \<Rightarrow> course"
  next_student :: ref
  next_instructor :: ref
  next_course :: ref

definition Student_init :: "string \<Rightarrow> pyval \<Rightarrow> string \<Rightarrow> string \<Rightarrow> error + student" where
  "Student_init nm ag em sid =
     (case Person_init nm ag em of
        Inl e \<Rightarrow> Inl e
      | Inr p \<Rightarrow> Inr (person.extend p \<lparr>student_id = sid, registered_courses = []\<rparr>))"

definition Instructor_init :: "string \<Rightarrow> pyval \<Rightarrow> string \<Rightarrow> string \<Rightarrow> error + instructor" where
  "Instructor_init nm ag em iid =
     (case Person_init nm ag em of
        Inl e \<Rightarrow> Inl e
      | Inr p \<Rightarrow> Inr (person.extend p \<lparr>instructor_id = iid, assigned_courses = []\<rparr>))"

definition Course_init :: "string \<Rightarrow> string \<Rightarrow> ref option \<Rightarrow> course" where
  "Course_init cid cname instr =
     \<lparr>course_id = cid, course_name = cname, instructor = instr, enrolled_students = []\<rparr>"

text \<open>Placing a newly constructed object in the store.\<close>

definition new_student :: "student \<Rightarrow> heap \<Rightarrow> ref \<times> heap" where
  "new_student s h =
     (next_student h,
      h\<lparr>student_objs := (student_objs h)(next_student h := s),
        next_student := Suc (next_student h)\<rparr>)"

definition new_instructor :: "instructor \<Rightarrow> heap \<Rightarrow> ref \<times> heap" where
  "new_instructor i h =
     (next_instructor h,
      h\<lparr>instructor_objs := (instructor_objs h)(next_instructor h := i),
        next_instructor := Suc (next_instructor h)\<rparr>)"

definition new_course :: "course \<Rightarrow> heap \<Rightarrow> ref \<times> heap" where
  "new_course c h =
     (next_course h,
      h\<lparr>course_objs := (course_objs h)(next_course h := c),
        next_course := Suc (next_course h)\<rparr>)"

text \<open>Field assignments on an object of the store.\<close>

definition set_registered_courses :: "ref \<Rightarrow> ref list \<Rightarrow> heap \<Rightarrow> heap" where
  "set_registered_courses s cs h =
     h\<lparr>student_objs := (student_objs h)(s := (student_objs h s)\<lparr>registered_courses := cs\<rparr>)\<rparr>"

definition set_enrolled_students :: "ref \<Rightarrow> ref list \<Rightarrow> heap \<Rightarrow> heap" where
  "set_enrolled_students c ss h =
     h\<lparr>course_objs := (course_objs h)(c := (course_objs h c)\<lparr>enrolled_students := ss\<rparr>)\<rparr>"

definition set_assigned_courses :: "ref \<Rightarrow> ref list \<Rightarrow> heap \<Rightarrow> heap" where
  "set_assigned_courses i cs h =
     h\<lparr>instructor_objs := (instructor_objs h)(i := (instructor_objs h i)\<lparr>assigned_courses := cs\<rparr>)\<rparr>"

definition assign_instructor_field :: "ref \<Rightarrow> ref option \<Rightarrow> heap \<Rightarrow> heap" where
  "assign_instructor_field c io h =
     h\<lparr>course_objs := (course_objs h)(c := (course_objs h c)\<lparr>instructor := io\<rparr>)\<rparr>"

text \<open>
  \<open>Student.register_course\<close> and \<open>Course.add_student\<close> call each other. Each call
  that recurses has just appended to a list the element whose absence it tested, so the
  number of the two memberships still missing decreases.
\<close>

function Student_register_course :: "ref \<Rightarrow> ref \<Rightarrow> heap \<Rightarrow> heap"
  and Course_add_student :: "ref \<Rightarrow> ref \<Rightarrow> heap \<Rightarrow> heap" where
  "Student_register_course self c h =
     (if c \<notin> set (registered_courses (student_objs h self)) then
        Course_add_student c self
          (set_registered_courses self (registered_courses (student_objs h self) @ [c]) h)
      else h)"
| "Course_add_student self s h =
     (if s \<notin> set (enrolled_students (course_objs h self)) then
        (if self \<notin> set (registered_courses
              (student_objs (set_enrolled_students self (enrolled_students (course_objs h self) @ [s]) h) s))
         then Student_register_course s self
                (set_enrolled_students self (enrolled_students (course_objs h self) @ [s]) h)
         else set_enrolled_students self (enrolled_students (course_objs h self) @ [s]) h)
      else h)"
  by pat_completeness auto
termination
  by (relation "measure (\<lambda>x. case x of
        Inl (s, c, h) \<Rightarrow>
          (if c \<in> set (registered_courses (student_objs h s)) then 0 else 1) +
          (if s \<in> set (enrolled_students (course_objs h c)) then 0 else 1)
      | Inr (c, s, h) \<Rightarrow>
          (if c \<in> set (registered_courses (student_objs h s)) then 0 else 1) +
          (if s \<in> set (enrolled_students (course_objs h c)) then 0 else 1))")
     (auto simp: set_registered_courses_def set_enrolled_students_def)

declare Student_register_course.simps [simp del] Course_add_student.simps [simp del]

text \<open>
  \<open>Student.unregister_course\<close>: \<open>list.remove\<close> deletes the first occurrence and
  raises ValueError when there is none, which can happen on the second list only, after
  the first has been changed.
\<close>

definition Student_unregister_course :: "ref \<Rightarrow> ref \<Rightarrow> heap \<Rightarrow> heap outcome" where
  "Student_unregister_course self c h =
     (if c \<in> set (registered_courses (student_objs h self)) then
        (if self \<in> set (enrolled_students
              (course_objs (set_registered_courses self (remove1 c (registered_courses (student_objs h self))) h) c))
         then Returned
                (set_enrolled_students c
                   (remove1 self (enrolled_students (course_objs h c)))
                   (set_registered_courses self (remove1 c (registered_courses (student_objs h self))) h))
         else Raised (ValueError ''list.remove(x): x not in list'')
                (set_registered_courses self (remove1 c (registered_courses (student_objs h self))) h))
      else Returned h)"

text \<open>
  \<open>Instructor.assign_course\<close> and \<open>Course.set_instructor\<close> call each other. The
  argument of \<open>set_instructor\<close> is an instructor or \<open>None\<close>; on \<open>None\<close> the
  attribute access \<open>instructor.assigned_courses\<close> raises after the field has been
  assigned.
\<close>

function Instructor_assign_course :: "ref \<Rightarrow> ref \<Rightarrow> heap \<Rightarrow> heap outcome"
  and Course_set_instructor :: "ref \<Rightarrow> ref option \<Rightarrow> heap \<Rightarrow> heap outcome" where
  "Instructor_assign_course self c h =
     (if c \<notin> set (assigned_courses (instructor_objs h self)) then
        Course_set_instructor c (Some self)
          (set_assigned_courses self (assigned_courses (instructor_objs h self) @ [c]) h)
      else Returned h)"
| "Course_set_instructor self None h =
     Raised (AttributeError ''NoneType object has no attribute assigned_courses'')
       (assign_instructor_field self None h)"
| "Course_set_instructor self (Some i) h =
     (if self \<notin> set (assigned_courses (instructor_objs (assign_instructor_field self (Some i) h) i))
      then Instructor_assign_course i self (assign_instructor_field self (Some i) h)
      else Returned (assign_instructor_field self (Some i) h))"
  by pat_completeness auto
termination
  by (relation "measure (\<lambda>x. case x of
        Inl (i, c, h) \<Rightarrow> (if c \<in> set (assigned_courses (instructor_objs h i)) then 0 else 2)
      | Inr (c, io, h) \<Rightarrow>
          (case io of None \<Rightarrow> 0
           | Some i \<Rightarrow> (if c \<in> set (assigned_courses (instructor_objs h i)) then 1 else 3)))")
     (auto simp: set_assigned_courses_def assign_instructor_field_def)

declare Instructor_assign_course.simps [simp del] Course_set_instructor.simps [simp del]

definition Instructor_unassign_course :: "ref \<Rightarrow> ref \<Rightarrow> heap \<Rightarrow> heap" where
  "Instructor_unassign_course self c h =
     (if c \<in> set (assigned_courses (instructor_objs h self)) then
        assign_instructor_field c None
          (set_assigned_courses self (remove1 c (assigned_courses (instructor_objs h self))) h)
      else h)"

section \<open>models.py: serialisation\<close>

text \<open>
  The dictionaries of \<open>to_dict\<close>: the scalar fields and the ids of the related
  objects. \<open>None\<close> of \<open>instructor_id\<close> is \<open>None\<close> of the option type.
\<close>

record student_dict = person_dict +
  k_student_id :: string
  k_registered_courses :: "string list"

record instructor_dict = person_dict +
  k_instructor_id :: string
  k_assigned_courses :: "string list"

record course_dict =
  kc_course_id :: string
  kc_course_name :: string
  kc_instructor_id :: "string option"
  kc_enrolled_students :: "string list"

definition Student_to_dict :: "heap \<Rightarrow> ref \<Rightarrow> student_dict" where
  "Student_to_dict h self =
     person_dict.extend (Person_to_dict (student_objs h self))
       \<lparr>k_student_id = student_id (student_objs h self),
        k_registered_courses =
          map (\<lambda>c. course_id (course_objs h c)) (registered_courses (student_objs h self))\<rparr>"

definition Student_from_dict :: "'a student_dict_scheme \<Rightarrow> error + student" where
  "Student_from_dict data =
     Student_init (k_name data) (k_age data) (k_email data) (k_student_id data)"

definition Instructor_to_dict :: "heap \<Rightarrow> ref \<Rightarrow> instructor_dict" where
  "Instructor_to_dict h self =
     person_dict.extend (Person_to_dict (instructor_objs h self))
       \<lparr>k_instructor_id = instructor_id (instructor_objs h self),
        k_assigned_courses =
          map (\<lambda>c. course_id (course_objs h c)) (assigned_courses (instructor_objs h self))\<rparr>"

definition Instructor_from_dict :: "'a instructor_dict_scheme \<Rightarrow> error + instructor" where
  "Instructor_from_dict data =
     Instructor_init (k_name data) (k_age data) (k_email data) (k_instructor_id data)"

definition Course_to_dict :: "heap \<Rightarrow> ref \<Rightarrow> course_dict" where
  "Course_to_dict h self =
     \<lparr>kc_course_id = course_id (course_objs h self),
      kc_course_name = course_name (course_objs h self),
      kc_instructor_id =
        (case instructor (course_objs h self) of
           None \<Rightarrow> None
         | Some i \<Rightarrow> Some (instructor_id (instructor_objs h i))),
      kc_enrolled_students =
        map (\<lambda>s. student_id (student_objs h s)) (enrolled_students (course_objs h self))\<rparr>"

definition Course_from_dict :: "'a course_dict_scheme \<Rightarrow> course" where
  "Course_from_dict data = Course_init (kc_course_id data) (kc_course_name data) None"

section \<open>data_manager.py: the relational store\<close>

text \<open>
  The four tables of \<open>create_tables\<close>, each primary key a map's key. Foreign keys are
  enforced (\<open>PRAGMA foreign_keys = ON\<close>). A row keeps the values that were bound;
  the conversions of SQLite's column affinity are not modelled.
\<close>

type_synonym person_row = "string \<times> pyval \<times> string"

record database =
  students_t :: "string \<rightharpoonup> person_row"
  instructors_t :: "string \<rightharpoonup> person_row"
  courses_t :: "string \<rightharpoonup> string \<times> string option"
  registrations_t :: "(string \<times> string) list"

definition empty_database :: database where
  "empty_database =
     \<lparr>students_t = Map.empty, instructors_t = Map.empty, courses_t = Map.empty,
      registrations_t = []\<rparr>"

text \<open>\<open>CREATE TABLE IF NOT EXISTS\<close> on a store that has the tables.\<close>

definition create_tables :: "database \<Rightarrow> database" where
  "create_tables db = db"

text \<open>
  Binding a Python value to a statement: an int outside the signed 64-bit range raises
  OverflowError, which is not an \<open>sqlite3.Error\<close>, before the statement runs. The
  strings of this model are sequences of code points below 256; each of them encodes
  as UTF-8, so binding a string never fails here.
\<close>

fun bindable :: "pyval \<Rightarrow> bool" where
  "bindable (PyInt n) = (- (2 ^ 63) \<le> n \<and> n < 2 ^ 63)"
| "bindable v = True"

text \<open>
  The three INSERT statements: \<open>Inl\<close> is the message of the IntegrityError, for a
  NOT NULL column given NULL, a primary key that exists, or an instructor id that is
  not in \<open>instructors\<close>.
\<close>

definition insert_student :: "string \<Rightarrow> person_row \<Rightarrow> database \<Rightarrow> string + database" where
  "insert_student sid row db =
     (if fst (snd row) = PyNone then Inl ''NOT NULL constraint failed: students.age''
      else if students_t db sid \<noteq> None then Inl ''UNIQUE constraint failed: students.student_id''
      else Inr (db\<lparr>students_t := (students_t db)(sid \<mapsto> row)\<rparr>))"

definition insert_instructor :: "string \<Rightarrow> person_row \<Rightarrow> database \<Rightarrow> string + database" where
  "insert_instructor iid row db =
     (if fst (snd row) = PyNone then Inl ''NOT NULL constraint failed: instructors.age''
      else if instructors_t db iid \<noteq> None then
        Inl ''UNIQUE constraint failed: instructors.instructor_id''
      else Inr (db\<lparr>instructors_t := (instructors_t db)(iid \<mapsto> row)\<rparr>))"

definition insert_course :: "string \<Rightarrow> string \<times> string option \<Rightarrow> database \<Rightarrow> string + database" where
  "insert_course cid row db =
     (if courses_t db cid \<noteq> None then Inl ''UNIQUE constraint failed: courses.course_id''
      else
        (case snd row of
           None \<Rightarrow> Inr (db\<lparr>courses_t := (courses_t db)(cid \<mapsto> row)\<rparr>)
         | Some iid \<Rightarrow>
             if instructors_t db iid = None then Inl ''FOREIGN KEY constraint failed''
             else Inr (db\<lparr>courses_t := (courses_t db)(cid \<mapsto> row)\<rparr>)))"

text \<open>
  The DELETE statements with the schema's ON DELETE actions, and the UPDATE. None of
  them violates a constraint, so they have no failing branch.
\<close>

definition sql_delete_student :: "string \<Rightarrow> database \<Rightarrow> database" where
  "sql_delete_student sid db =
     db\<lparr>students_t := (students_t db)(sid := None),
        registrations_t :=
          (if students_t db sid = None then registrations_t db
           else filter (\<lambda>r. fst r \<noteq> sid) (registrations_t db))\<rparr>"

definition null_instructor :: "string \<Rightarrow> (string \<times> string option) option \<Rightarrow> (string \<times> string option) option" where
  "null_instructor iid r =
     (case r of
        None \<Rightarrow> None
      | Some (cname, io) \<Rightarrow> Some (cname, if io = Some iid then None else io))"

definition sql_delete_instructor :: "string \<Rightarrow> database \<Rightarrow> database" where
  "sql_delete_instructor iid db =
     db\<lparr>instructors_t := (instructors_t db)(iid := None),
        courses_t :=
          (if instructors_t db iid = None then courses_t db
           else (\<lambda>cid. null_instructor iid (courses_t db cid)))\<rparr>"

definition sql_update_courses_null :: "string \<Rightarrow> database \<Rightarrow> database" where
  "sql_update_courses_null iid db =
     db\<lparr>courses_t := (\<lambda>cid. null_instructor iid (courses_t db cid))\<rparr>"

definition sql_delete_course :: "string \<Rightarrow> database \<Rightarrow> database" where
  "sql_delete_course cid db =
     db\<lparr>courses_t := (courses_t db)(cid := None),
        registrations_t :=
          (if courses_t db cid = None then registrations_t db
           else filter (\<lambda>r. snd r \<noteq> cid) (registrations_t db))\<rparr>"

section \<open>data_manager.py: DataManager\<close>

text \<open>The document \<open>save_data\<close> writes and \<open>load_data\<close> reads.\<close>

record document =
  doc_students :: "student_dict list"
  doc_instructors :: "instructor_dict list"
  doc_courses :: "course_dict list"

text \<open>
  The state a DataManager method works on: the objects, the database behind \<open>conn\<close>,
  the three dictionaries (in insertion order, as Python keeps them), what has been
  printed, and the files with the names that cannot be opened for writing.
\<close>

record state =
  objs :: heap
  conn :: database
  students :: "(string \<times> ref) list"
  instructors :: "(string \<times> ref) list"
  courses :: "(string \<times> ref) list"
  stdout :: "string list"
  files :: "string \<rightharpoonup> document"
  unwritable :: "string set"

definition print :: "string \<Rightarrow> state \<Rightarrow> state" where
  "print line st = st\<lparr>stdout := stdout st @ [line]\<rparr>"

definition DataManager_init :: "state \<Rightarrow> state" where
  "DataManager_init st =
     st\<lparr>conn := create_tables (conn st), students := [], instructors := [], courses := []\<rparr>"

definition DataManager_add_student :: "ref \<Rightarrow> state \<Rightarrow> state outcome" where
  "DataManager_add_student s st =
     (if \<not> bindable (age (student_objs (objs st) s)) then Raised OverflowError st
      else
        (case insert_student (student_id (student_objs (objs st) s))
                (name (student_objs (objs st) s), age (student_objs (objs st) s),
                 get_email (student_objs (objs st) s)) (conn st) of
           Inr db \<Rightarrow>
             Returned (st\<lparr>conn := db,
               students := AList.update (student_id (student_objs (objs st) s)) s (students st)\<rparr>)
         | Inl msg \<Rightarrow>
             Returned (print (''An error occurred while adding student: '' @ msg) st)))"

definition DataManager_add_instructor :: "ref \<Rightarrow> state \<Rightarrow> state outcome" where
  "DataManager_add_instructor i st =
     (if \<not> bindable (age (instructor_objs (objs st) i)) then Raised OverflowError st
      else
        (case insert_instructor (instructor_id (instructor_objs (objs st) i))
                (name (instructor_objs (objs st) i), age (instructor_objs (objs st) i),
                 get_email (instructor_objs (objs st) i)) (conn st) of
           Inr db \<Rightarrow>
             Returned (st\<lparr>conn := db,
               instructors :=
                 AList.update (instructor_id (instructor_objs (objs st) i)) i (instructors st)\<rparr>)
         | Inl msg \<Rightarrow>
             Returned (print (''An error occurred while adding instructor: '' @ msg) st)))"

definition DataManager_add_course :: "ref \<Rightarrow> state \<Rightarrow> state" where
  "DataManager_add_course c st =
     (case insert_course (course_id (course_objs (objs st) c))
             (course_name (course_objs (objs st) c),
              (case instructor (course_objs (objs st) c) of
                 None \<Rightarrow> None
               | Some i \<Rightarrow> Some (instructor_id (instructor_objs (objs st) i)))) (conn st) of
        Inr db \<Rightarrow>
          st\<lparr>conn := db,
             courses := AList.update (course_id (course_objs (objs st) c)) c (courses st)\<rparr>
      | Inl msg \<Rightarrow> print (''An error occurred while adding course: '' @ msg) st)"

definition DataManager_delete_student :: "string \<Rightarrow> state \<Rightarrow> state" where
  "DataManager_delete_student sid st =
     st\<lparr>conn := sql_delete_student sid (conn st), students := AList.delete sid (students st)\<rparr>"

text \<open>The loop of \<open>delete_instructor\<close> over \<open>self.courses.values()\<close>.\<close>

fun clear_instructor :: "string \<Rightarrow> ref list \<Rightarrow> heap \<Rightarrow> heap" where
  "clear_instructor iid [] h = h"
| "clear_instructor iid (c # cs) h =
     clear_instructor iid cs
       (case instructor (course_objs h c) of
          None \<Rightarrow> h
        | Some i \<Rightarrow>
            if instructor_id (instructor_objs h i) = iid then assign_instructor_field c None h
            else h)"

definition DataManager_delete_instructor :: "string \<Rightarrow> state \<Rightarrow> state" where
  "DataManager_delete_instructor iid st =
     st\<lparr>conn := sql_update_courses_null iid (sql_delete_instructor iid (conn st)),
        instructors := AList.delete iid (instructors st),
        objs := clear_instructor iid (map snd (courses st)) (objs st)\<rparr>"

definition DataManager_delete_course :: "string \<Rightarrow> state \<Rightarrow> state" where
  "DataManager_delete_course cid st =
     st\<lparr>conn := sql_delete_course cid (conn st), courses := AList.delete cid (courses st)\<rparr>"

definition save_data :: "string \<Rightarrow> state \<Rightarrow> state" where
  "save_data filename st =
     (if filename \<in> unwritable st then
        print ''An error occurred while saving data: Permission denied'' st
      else
        st\<lparr>files := (files st)(filename \<mapsto>
             \<lparr>doc_students = map (Student_to_dict (objs st)) (map snd (students st)),
              doc_instructors = map (Instructor_to_dict (objs st)) (map snd (instructors st)),
              doc_courses = map (Course_to_dict (objs st)) (map snd (courses st))\<rparr>)\<rparr>)"

text \<open>
  \<open>load_data\<close> calls \<open>self.register_student_in_course\<close>, a method DataManager does
  not define: the attribute lookup raises.
\<close>

definition register_student_in_course :: "string \<Rightarrow> string \<Rightarrow> state \<Rightarrow> state outcome" where
  "register_student_in_course sid cid st =
     Raised (AttributeError ''DataManager object has no attribute register_student_in_course'') st"

text \<open>The four loops of \<open>load_data\<close>; an exception leaves the loop and the method.\<close>

fun load_students :: "student_dict list \<Rightarrow> state \<Rightarrow> state outcome" where
  "load_students [] st = Returned st"
| "load_students (s_data # rest) st =
     (case Student_from_dict s_data of
        Inl e \<Rightarrow> Raised e st
      | Inr s \<Rightarrow>
          and_then
            (DataManager_add_student (fst (new_student s (objs st)))
               (st\<lparr>objs := snd (new_student s (objs st)),
                   students := AList.update (student_id s) (fst (new_student s (objs st))) (students st)\<rparr>))
            (load_students rest))"

fun load_instructors :: "instructor_dict list \<Rightarrow> state \<Rightarrow> state outcome" where
  "load_instructors [] st = Returned st"
| "load_instructors (i_data # rest) st =
     (case Instructor_from_dict i_data of
        Inl e \<Rightarrow> Raised e st
      | Inr i \<Rightarrow>
          and_then
            (DataManager_add_instructor (fst (new_instructor i (objs st)))
               (st\<lparr>objs := snd (new_instructor i (objs st)),
                   instructors :=
                     AList.update (instructor_id i) (fst (new_instructor i (objs st))) (instructors st)\<rparr>))
            (load_instructors rest))"

text \<open>
  \<open>self.instructors.get(instructor_id) if instructor_id else None\<close>: \<open>None\<close> and the
  empty string are both falsy.
\<close>

definition lookup_instructor :: "string option \<Rightarrow> state \<Rightarrow> ref option" where
  "lookup_instructor iid_opt st =
     (case iid_opt of
        None \<Rightarrow> None
      | Some iid \<Rightarrow> if iid = [] then None else map_of (instructors st) iid)"

fun load_courses :: "course_dict list \<Rightarrow> state \<Rightarrow> state outcome" where
  "load_courses [] st = Returned st"
| "load_courses (c_data # rest) st =
     (case Course_set_instructor (fst (new_course (Course_from_dict c_data) (objs st)))
             (lookup_instructor (kc_instructor_id c_data) st)
             (snd (new_course (Course_from_dict c_data) (objs st))) of
        Raised e h \<Rightarrow> Raised e (st\<lparr>objs := h\<rparr>)
      | Returned h \<Rightarrow>
          load_courses rest
            (DataManager_add_course (fst (new_course (Course_from_dict c_data) (objs st)))
               (st\<lparr>objs := h,
                   courses := AList.update (course_id (course_objs h (fst (new_course (Course_from_dict c_data) (objs st)))))
                                (fst (new_course (Course_from_dict c_data) (objs st))) (courses st)\<rparr>)))"

fun enroll_students :: "ref \<Rightarrow> string \<Rightarrow> string list \<Rightarrow> state \<Rightarrow> state outcome" where
  "enroll_students c cid [] st = Returned st"
| "enroll_students c cid (sid # rest) st =
     (case map_of (students st) sid of
        None \<Rightarrow> enroll_students c cid rest st
      | Some s \<Rightarrow>
          and_then
            (register_student_in_course sid cid (st\<lparr>objs := Course_add_student c s (objs st)\<rparr>))
            (enroll_students c cid rest))"

fun enroll_courses :: "course_dict list \<Rightarrow> state \<Rightarrow> state outcome" where
  "enroll_courses [] st = Returned st"
| "enroll_courses (c_data # rest) st =
     (case map_of (courses st) (kc_course_id c_data) of
        None \<Rightarrow> enroll_courses rest st
      | Some c \<Rightarrow>
          and_then (enroll_students c (kc_course_id c_data) (kc_enrolled_students c_data) st)
            (enroll_courses rest))"

definition load_data :: "string \<Rightarrow> state \<Rightarrow> state outcome" where
  "load_data filename st =
     (case files st filename of
        None \<Rightarrow> Returned (print ''An error occurred while loading data: No such file or directory'' st)
      | Some data \<Rightarrow>
          and_then (load_students (doc_students data) (st\<lparr>students := []\<rparr>)) (\<lambda>st1.
          and_then (load_instructors (doc_instructors data) (st1\<lparr>instructors := []\<rparr>)) (\<lambda>st2.
          and_then (load_courses (doc_courses data) (st2\<lparr>courses := []\<rparr>))
            (enroll_courses (doc_courses data)))))"

section \<open>models_PyQt.py\<close>

text \<open>\<open>r'^[a-zA-Z0-9_.+-]+@[a-zA-Z0-9-]+\.[a-zA-Z0-9-.]+$'\<close>\<close>

definition alnum :: "(char \<times> char) list" where
  "alnum = [(CHR ''a'', CHR ''z''), (CHR ''A'', CHR ''Z''), (CHR ''0'', CHR ''9'')]"

definition reg :: "item list" where
  "reg =
     [OneOrMore (Bracket (alnum @ [(CHR ''_'', CHR ''_''), (CHR ''.'', CHR ''.''),
                                   (CHR ''+'', CHR ''+''), (CHR ''-'', CHR ''-'')])),
      One (Lit CHR ''@''),
      OneOrMore (Bracket (alnum @ [(CHR ''-'', CHR ''-'')])),
      One (Lit CHR ''.''),
      OneOrMore (Bracket (alnum @ [(CHR ''-'', CHR ''-''), (CHR ''.'', CHR ''.'')]))]"

record person_qt =
  q_name :: string
  q_age :: pyval
  q_email :: string

record student_qt = person_qt +
  q_student_id :: string
  q_registered_courses :: "string list"

definition validate_name :: "string \<Rightarrow> error option" where
  "validate_name nm = (if nm = [] then Some (ValueError ''Name cannot be empty.'') else None)"

fun validate_age :: "pyval \<Rightarrow> error option" where
  "validate_age (PyInt n) =
     (if n < 0 then Some (ValueError ''Age must be a non-negative integer.'') else None)"
| "validate_age v = Some (ValueError ''Age must be an integer.'')"

definition validate_email_qt :: "string \<Rightarrow> error option" where
  "validate_email_qt em =
     (if \<not> re_match reg em then Some (ValueError ''Email address is invalid!'') else None)"

definition person_init :: "string \<Rightarrow> pyval \<Rightarrow> string \<Rightarrow> error + person_qt" where
  "person_init nm ag em =
     (case validate_name nm of
        Some e \<Rightarrow> Inl e
      | None \<Rightarrow>
          (case validate_age ag of
             Some e \<Rightarrow> Inl e
           | None \<Rightarrow>
               (case validate_email_qt em of
                  Some e \<Rightarrow> Inl e
                | None \<Rightarrow> Inr \<lparr>q_name = nm, q_age = ag, q_email = em\<rparr>)))"

definition validate_student_id :: "string \<Rightarrow> error option" where
  "validate_student_id sid =
     (if sid = [] then Some (ValueError ''Student ID cannot be empty.'') else None)"

definition student_init :: "string \<Rightarrow> pyval \<Rightarrow> string \<Rightarrow> string \<Rightarrow> string list \<Rightarrow> error + student_qt" where
  "student_init nm ag em sid rc =
     (case person_init nm ag em of
        Inl e \<Rightarrow> Inl e
      | Inr p \<Rightarrow>
          (case validate_student_id sid of
             Some e \<Rightarrow> Inl e
           | None \<Rightarrow>
               Inr (person_qt.extend p \<lparr>q_student_id = sid, q_registered_courses = rc\<rparr>)))"

text \<open>
  The values the parameter of \<open>course.add_student\<close> can be bound to: an instance of
  \<open>student\<close>, a class object, a string or \<open>None\<close>. Inside the method the name
  \<open>student\<close> is the parameter, not the class.
\<close>

datatype qclass = C_type | C_object | C_person | C_student | C_instructor | C_course
  | C_str | C_NoneType

datatype qvalue = QStudent student_qt | QClass qclass | QStr string | QNone

fun type_of :: "qvalue \<Rightarrow> qclass" where
  "type_of (QStudent s) = C_student"
| "type_of (QClass k) = C_type"
| "type_of (QStr s) = C_str"
| "type_of QNone = C_NoneType"

fun mro :: "qclass \<Rightarrow> qclass list" where
  "mro C_student = [C_student, C_person, C_object]"
| "mro C_instructor = [C_instructor, C_person, C_object]"
| "mro C_object = [C_object]"
| "mro k = [k, C_object]"

text \<open>\<open>isinstance(obj, cls)\<close> raises TypeError unless \<open>cls\<close> is a class.\<close>

fun isinstance :: "qvalue \<Rightarrow> qvalue \<Rightarrow> error + bool" where
  "isinstance obj (QClass k) = Inr (k \<in> set (mro (type_of obj)))"
| "isinstance obj cls = Inl TypeError"

record course_qt =
  q_course_id :: string
  q_course_name :: string
  q_instructor :: qvalue
  q_enrolled_students :: "qvalue list"

definition course_add_student :: "course_qt \<Rightarrow> qvalue \<Rightarrow> course_qt outcome" where
  "course_add_student self student =
     (case isinstance student student of
        Inl e \<Rightarrow> Raised e self
      | Inr b \<Rightarrow>
          if \<not> b then Raised (ValueError ''Student must be a valid student object.'') self
          else Returned (self\<lparr>q_enrolled_students := q_enrolled_students self @ [student]\<rparr>))"

section \<open>Example states\<close>

definition empty_heap :: heap where
  "empty_heap =
     \<lparr>student_objs = (\<lambda>r. \<lparr>name = [], age = PyInt 0, email = [], student_id = [],
                              registered_courses = []\<rparr>),
      instructor_objs = (\<lambda>r. \<lparr>name = [], age = PyInt 0, email = [], instructor_id = [],
                                 assigned_courses = []\<rparr>),
      course_objs = (\<lambda>r. Course_init [] [] None),
      next_student = 0, next_instructor = 0, next_course = 0\<rparr>"

definition initial_state :: state where
  "initial_state =
     DataManager_init
       \<lparr>objs = empty_heap, conn = empty_database, students = [], instructors = [],
        courses = [], stdout = [], files = Map.empty, unwritable = {}\<rparr>"

definition raised :: "'a outcome \<Rightarrow> error option" where
  "raised r = (case r of Returned s \<Rightarrow> None | Raised e s \<Rightarrow> Some e)"

text \<open>
  Student("Ann", 20, "a@b.com", "S1") at address 0 and Course("C1", "Algebra") at
  address 0 of their stores, S1 registered in C1, both added to the manager.
\<close>

definition ann :: student where
  "ann = \<lparr>name = ''Ann'', age = PyInt 20, email = ''a@b.com'', student_id = ''S1'',
          registered_courses = []\<rparr>"

definition ann_algebra_heap :: heap where
  "ann_algebra_heap =
     Student_register_course 0 0
       (snd (new_course (Course_init ''C1'' ''Algebra'' None) (snd (new_student ann empty_heap))))"

definition ann_algebra :: state where
  "ann_algebra =
     DataManager_add_course 0
       (state_of (DataManager_add_student 0 (initial_state\<lparr>objs := ann_algebra_heap\<rparr>)))"

text \<open>
  Instructors I1 and I2 at addresses 0 and 1, Course("C1", "Algebra", I1) at address 0,
  all three added to the manager, then \<open>I2.assign_course(C1)\<close>.
\<close>

definition bob :: instructor where
  "bob = \<lparr>name = ''Bob'', age = PyInt 40, email = ''b@b.com'', instructor_id = ''I1'',
          assigned_courses = []\<rparr>"

definition eve :: instructor where
  "eve = \<lparr>name = ''Eve'', age = PyInt 41, email = ''e@b.com'', instructor_id = ''I2'',
          assigned_courses = []\<rparr>"






text \<open>
  Instructors I1 and I2 at addresses 0 and 1 and Course("C1", "Algebra") at address 0,
  then \<open>I1.assign_course(C1)\<close>, then \<open>I2.assign_course(C1)\<close>.
\<close>

definition two_free_heap :: heap where
  "two_free_heap =
     snd (new_course (Course_init ''C1'' ''Algebra'' None)
       (snd (new_instructor eve (snd (new_instructor bob empty_heap)))))"

definition assigned_once :: heap where
  "assigned_once = state_of (Instructor_assign_course 0 0 two_free_heap)"

definition assigned_twice :: heap where
  "assigned_twice = state_of (Instructor_assign_course 1 0 assigned_once)"

text \<open>
  Student S1, instructor I1 and course C1, with \<open>I1.assign_course(C1)\<close> and
  \<open>S1.register_course(C1)\<close>, all three added to the manager.
\<close>

definition ann_bob_heap :: heap where
  "ann_bob_heap =
     Student_register_course 0 0
       (state_of (Instructor_assign_course 0 0
         (snd (new_course (Course_init ''C1'' ''Algebra'' None)
           (snd (new_instructor bob (snd (new_student ann empty_heap))))))))"

definition ann_bob :: state where
  "ann_bob =
     DataManager_add_course 0
       (state_of (DataManager_add_instructor 0
         (state_of (DataManager_add_student 0 (initial_state\<lparr>objs := ann_bob_heap\<rparr>)))))"

text \<open>
  Referential symmetry of registrations: a course is in a student's list exactly when
  the student is in the course's list, and no list holds an object twice.
\<close>

definition registration_symmetric :: "heap \<Rightarrow> bool" where
  "registration_symmetric h \<longleftrightarrow>
     (\<forall>s c. c \<in> set (registered_courses (student_objs h s))
              \<longleftrightarrow> s \<in> set (enrolled_students (course_objs h c)))
     \<and> (\<forall>s. distinct (registered_courses (student_objs h s)))
     \<and> (\<forall>c. distinct (enrolled_students (course_objs h c)))"

section \<open>The mutual recursions, unfolded\<close>

lemma register_unfold:
  "Student_register_course s c h =
     (if c \<in> set (registered_courses (student_objs h s)) then h
      else if s \<in> set (enrolled_students (course_objs h c))
        then set_registered_courses s (registered_courses (student_objs h s) @ [c]) h
        else set_enrolled_students c (enrolled_students (course_objs h c) @ [s])
               (set_registered_courses s (registered_courses (student_objs h s) @ [c]) h))"
  apply (subst Student_register_course.simps)
  apply (subst Course_add_student.simps)
  apply (simp add: set_registered_courses_def set_enrolled_students_def)
  done

lemma add_student_unfold:
  "Course_add_student c s h =
     (if s \<in> set (enrolled_students (course_objs h c)) then h
      else if c \<in> set (registered_courses (student_objs h s))
        then set_enrolled_students c (enrolled_students (course_objs h c) @ [s]) h
        else set_registered_courses s (registered_courses (student_objs h s) @ [c])
               (set_enrolled_students c (enrolled_students (course_objs h c) @ [s]) h))"
  apply (subst Course_add_student.simps)
  apply (subst Student_register_course.simps)
  apply (subst Course_add_student.simps)
  apply (simp add: set_registered_courses_def set_enrolled_students_def)
  done

lemma assign_unfold:
  "Instructor_assign_course i c h =
     (if c \<in> set (assigned_courses (instructor_objs h i)) then Returned h
      else Returned (assign_instructor_field c (Some i)
             (set_assigned_courses i (assigned_courses (instructor_objs h i) @ [c]) h)))"
  apply (subst Instructor_assign_course.simps)
  apply (subst Course_set_instructor.simps)
  apply (simp add: set_assigned_courses_def assign_instructor_field_def)
  done

lemma set_instructor_unfold:
  "Course_set_instructor c (Some i) h =
     (if c \<in> set (assigned_courses (instructor_objs h i))
      then Returned (assign_instructor_field c (Some i) h)
      else Returned (assign_instructor_field c (Some i)
             (set_assigned_courses i (assigned_courses (instructor_objs h i) @ [c])
                (assign_instructor_field c (Some i) h))))"
  apply (subst Course_set_instructor.simps)
  apply (subst assign_unfold)
  apply (simp add: set_assigned_courses_def assign_instructor_field_def)
  done

section \<open>The example states, computed\<close>

lemmas heap_defs = new_student_def new_instructor_def new_course_def set_registered_courses_def
  set_enrolled_students_def set_assigned_courses_def assign_instructor_field_def Course_init_def
  empty_heap_def

lemmas db_defs = insert_student_def insert_instructor_def insert_course_def sql_delete_student_def
  sql_delete_instructor_def sql_update_courses_null_def sql_delete_course_def null_instructor_def
  empty_database_def create_tables_def

lemmas dm_defs = DataManager_init_def DataManager_add_student_def DataManager_add_instructor_def
  DataManager_add_course_def DataManager_delete_student_def DataManager_delete_instructor_def
  DataManager_delete_course_def print_def get_email_def initial_state_def

lemmas email_defs = validate_email_def pattern_def is_space_def at_end_def

lemma ann_algebra_heap_eq:
  "ann_algebra_heap =
     \<lparr>student_objs = (student_objs empty_heap)(0 := ann\<lparr>registered_courses := [0]\<rparr>),
      instructor_objs = instructor_objs empty_heap,
      course_objs = (course_objs empty_heap)(0 := \<lparr>course_id = ''C1'', course_name = ''Algebra'',
         instructor = None, enrolled_students = [0]\<rparr>),
      next_student = 1, next_instructor = 0, next_course = 1\<rparr>"
  by (simp add: ann_algebra_heap_def register_unfold heap_defs ann_def)

lemma ann_algebra_eq:
  "ann_algebra =
     \<lparr>objs = ann_algebra_heap,
      conn = \<lparr>students_t = [''S1'' \<mapsto> (''Ann'', PyInt 20, ''a@b.com'')], instructors_t = Map.empty,
              courses_t = [''C1'' \<mapsto> (''Algebra'', None)], registrations_t = []\<rparr>,
      students = [(''S1'', 0)], instructors = [], courses = [(''C1'', 0)], stdout = [],
      files = Map.empty, unwritable = {}\<rparr>"
  by (simp add: ann_algebra_def ann_algebra_heap_eq dm_defs db_defs ann_def)

lemmas serial_defs = Student_to_dict_def Instructor_to_dict_def Course_to_dict_def
  Person_to_dict_def Student_from_dict_def Instructor_from_dict_def Course_from_dict_def
  Student_init_def Instructor_init_def Person_init_def person.extend_def person_dict.extend_def

lemma saved_eq:
  "files (save_data ''snapshot.json'' ann_algebra) ''snapshot.json'' =
     Some \<lparr>doc_students = [\<lparr>k_name = ''Ann'', k_age = PyInt 20, k_email = ''a@b.com'',
                               k_student_id = ''S1'', k_registered_courses = [''C1'']\<rparr>],
           doc_instructors = [],
           doc_courses = [\<lparr>kc_course_id = ''C1'', kc_course_name = ''Algebra'',
                            kc_instructor_id = None, kc_enrolled_students = [''S1'']\<rparr>]\<rparr>"
  by (simp add: save_data_def ann_algebra_eq ann_algebra_heap_eq serial_defs ann_def heap_defs)

lemma assigned_once_eq:
  "assigned_once =
     \<lparr>student_objs = student_objs empty_heap,
      instructor_objs = (instructor_objs empty_heap)
        (1 := eve, 0 := bob\<lparr>assigned_courses := [0]\<rparr>),
      course_objs = (course_objs empty_heap)(0 := \<lparr>course_id = ''C1'', course_name = ''Algebra'',
         instructor = Some 0, enrolled_students = []\<rparr>),
      next_student = 0, next_instructor = 2, next_course = 1\<rparr>"
  by (simp add: assigned_once_def two_free_heap_def assign_unfold heap_defs bob_def eve_def)

lemma ann_bob_heap_eq:
  "ann_bob_heap =
     \<lparr>student_objs = (student_objs empty_heap)(0 := ann\<lparr>registered_courses := [0]\<rparr>),
      instructor_objs = (instructor_objs empty_heap)(0 := bob\<lparr>assigned_courses := [0]\<rparr>),
      course_objs = (course_objs empty_heap)(0 := \<lparr>course_id = ''C1'', course_name = ''Algebra'',
         instructor = Some 0, enrolled_students = [0]\<rparr>),
      next_student = 1, next_instructor = 1, next_course = 1\<rparr>"
  by (simp add: ann_bob_heap_def register_unfold assign_unfold heap_defs ann_def bob_def)

lemma ann_bob_eq:
  "ann_bob =
     \<lparr>objs = ann_bob_heap,
      conn = \<lparr>students_t = [''S1'' \<mapsto> (''Ann'', PyInt 20, ''a@b.com'')],
              instructors_t = [''I1'' \<mapsto> (''Bob'', PyInt 40, ''b@b.com'')],
              courses_t = [''C1'' \<mapsto> (''Algebra'', Some ''I1'')], registrations_t = []\<rparr>,
      students = [(''S1'', 0)], instructors = [(''I1'', 0)], courses = [(''C1'', 0)], stdout = [],
      files = Map.empty, unwritable = {}\<rparr>"
  by (simp add: ann_bob_def ann_bob_heap_eq dm_defs db_defs ann_def bob_def)


section \<open>Export and import\<close>

text \<open>
  C1. The claim: \<open>save_data\<close> followed by \<open>load_data\<close> into a fresh DataManager gives
  the same relationship graph; with Student("Ann", 20, "a@b.com", "S1") registered in
  Course("C1", "Algebra"), after the load S1's \<open>registered_courses\<close> is exactly C1.
  What \<open>load_data\<close> does on that example: C1 has no instructor, so
  \<open>course.set_instructor(None)\<close> raises AttributeError before the course reaches the
  mirror; the courses mirror is empty and the new S1 has no registered course. When the
  course has an instructor, the load reaches the enrolment loop and raises there, on the
  call of the undefined \<open>register_student_in_course\<close>, with no registration row written.
\<close>

theorem load_data_example_raises:
  "raised (load_data ''snapshot.json'' (DataManager_init (save_data ''snapshot.json'' ann_algebra)))
     = Some (AttributeError ''NoneType object has no attribute assigned_courses'')
   \<and> courses (state_of (load_data ''snapshot.json''
        (DataManager_init (save_data ''snapshot.json'' ann_algebra)))) = []
   \<and> students (state_of (load_data ''snapshot.json''
        (DataManager_init (save_data ''snapshot.json'' ann_algebra)))) = [(''S1'', 1)]
   \<and> registered_courses (student_objs (objs (state_of (load_data ''snapshot.json''
        (DataManager_init (save_data ''snapshot.json'' ann_algebra))))) 1) = []
   \<and> raised (load_data ''snapshot.json'' (DataManager_init (save_data ''snapshot.json'' ann_bob)))
     = Some (AttributeError ''DataManager object has no attribute register_student_in_course'')
   \<and> registrations_t (conn (state_of (load_data ''snapshot.json''
        (DataManager_init (save_data ''snapshot.json'' ann_bob))))) = []"
proof -
  have no_instructor:
    "raised (load_data ''snapshot.json'' (DataManager_init (save_data ''snapshot.json'' ann_algebra)))
       = Some (AttributeError ''NoneType object has no attribute assigned_courses'')
     \<and> courses (state_of (load_data ''snapshot.json''
          (DataManager_init (save_data ''snapshot.json'' ann_algebra)))) = []
     \<and> students (state_of (load_data ''snapshot.json''
          (DataManager_init (save_data ''snapshot.json'' ann_algebra)))) = [(''S1'', 1)]
     \<and> registered_courses (student_objs (objs (state_of (load_data ''snapshot.json''
          (DataManager_init (save_data ''snapshot.json'' ann_algebra))))) 1) = []"
    by (simp add: load_data_def save_data_def ann_algebra_eq ann_algebra_heap_eq serial_defs ann_def
        heap_defs dm_defs db_defs email_defs lookup_instructor_def raised_def
        Course_set_instructor.simps(1))
  have with_instructor:
    "raised (load_data ''snapshot.json'' (DataManager_init (save_data ''snapshot.json'' ann_bob)))
       = Some (AttributeError ''DataManager object has no attribute register_student_in_course'')
     \<and> registrations_t (conn (state_of (load_data ''snapshot.json''
          (DataManager_init (save_data ''snapshot.json'' ann_bob))))) = []"
    by (simp add: load_data_def save_data_def ann_bob_eq ann_bob_heap_eq serial_defs ann_def bob_def
        heap_defs dm_defs db_defs email_defs lookup_instructor_def raised_def
        set_instructor_unfold add_student_unfold register_student_in_course_def)
  from no_instructor with_instructor show ?thesis
    by blast
qed

section \<open>Referential symmetry\<close>

text \<open>
  The registration half of the symmetry is kept by the three methods that change it,
  and \<open>unregister_course\<close> never raises in a symmetric state.
\<close>

lemma registration_symmetric_empty: "registration_symmetric empty_heap"
  by (simp add: registration_symmetric_def heap_defs)

lemma registration_symmetric_register:
  "registration_symmetric h \<Longrightarrow> registration_symmetric (Student_register_course s c h)"
  unfolding registration_symmetric_def register_unfold
  by (auto simp: set_registered_courses_def set_enrolled_students_def)

lemma registration_symmetric_add_student:
  "registration_symmetric h \<Longrightarrow> registration_symmetric (Course_add_student c s h)"
  unfolding registration_symmetric_def add_student_unfold
  by (auto simp: set_registered_courses_def set_enrolled_students_def)

lemma registration_symmetric_unregister:
  "registration_symmetric h \<Longrightarrow>
   raised (Student_unregister_course s c h) = None
   \<and> registration_symmetric (state_of (Student_unregister_course s c h))"
  unfolding registration_symmetric_def Student_unregister_course_def
  by (auto simp: set_registered_courses_def set_enrolled_students_def raised_def)

text \<open>
  C2. The claim: after every mutation an instructor's \<open>assigned_courses\<close> contains a
  course exactly when the course's \<open>instructor\<close> is that instructor, and assigning a
  new instructor to a course that has one replaces the old association on both sides.
  What \<open>assign_course\<close> does when I2 is assigned to C1, which I1 holds: neither call
  raises and \<open>C1.instructor\<close> becomes I2, but \<open>I1.assigned_courses\<close> still holds C1.
\<close>

theorem reassignment_keeps_old_association:
  "raised (Instructor_assign_course 0 0 two_free_heap) = None
   \<and> instructor (course_objs assigned_once 0) = Some 0
   \<and> assigned_courses (instructor_objs assigned_once 0) = [0]
   \<and> raised (Instructor_assign_course 1 0 assigned_once) = None
   \<and> instructor (course_objs assigned_twice 0) = Some 1
   \<and> assigned_courses (instructor_objs assigned_twice 1) = [0]
   \<and> assigned_courses (instructor_objs assigned_twice 0) = [0]"
  by (simp add: assigned_twice_def assigned_once_eq assign_unfold raised_def heap_defs bob_def eve_def
      two_free_heap_def)

section \<open>Deleting a course\<close>

text \<open>
  C3. The claim: when course C is in the courses mirror and a resident student S has C in
  \<open>S.registered_courses\<close>, \<open>delete_course(C.course_id)\<close> removes C from
  \<open>S.registered_courses\<close>, from the mirror and from the registrations table.
  What \<open>delete_course\<close> does in the state where S1 is registered in C1: C1 leaves the
  mirror and no registration row is left, but \<open>S1.registered_courses\<close> still holds C1.
\<close>

theorem delete_course_keeps_registered_courses:
  "map_of (courses ann_algebra) ''C1'' = Some 0
   \<and> map_of (students ann_algebra) ''S1'' = Some 0
   \<and> registered_courses (student_objs (objs ann_algebra) 0) = [0]
   \<and> courses (DataManager_delete_course ''C1'' ann_algebra) = []
   \<and> registrations_t (conn (DataManager_delete_course ''C1'' ann_algebra)) = []
   \<and> registered_courses (student_objs (objs (DataManager_delete_course ''C1'' ann_algebra)) 0) = [0]"
  by (simp add: ann_algebra_eq ann_algebra_heap_eq dm_defs db_defs ann_def)

section \<open>Deleting an instructor\<close>

lemma clear_instructor_instructor_objs:
  "instructor_objs (clear_instructor iid cs h) = instructor_objs h"
  by (induction cs arbitrary: h) (auto simp: assign_instructor_field_def split: option.splits)





section \<open>Adding an entity that the store rejects\<close>




section \<open>Validation\<close>

text \<open>
  C5, as the claim states it, fails: \<open>Person.__init__\<close> stores the name without a
  check, and its age test is the comparison \<open>age >= 0\<close>, which a float passes. An empty
  name and the age 2.5 both give an instance.
\<close>

theorem person_accepts_empty_name_and_float_age:
  "Person_init [] (PyInt 20) ''a@b.com'' = Inr \<lparr>name = [], age = PyInt 20, email = ''a@b.com''\<rparr>
   \<and> Person_init ''Ann'' (PyFloat 5 (- 1)) ''a@b.com''
       = Inr \<lparr>name = ''Ann'', age = PyFloat 5 (- 1), email = ''a@b.com''\<rparr>"
  by (simp add: Person_init_def email_defs)

lemma Person_init_bad:
  "ge_zero ag \<noteq> Inr True \<or> \<not> validate_email em \<Longrightarrow> isl (Person_init nm ag em)"
  by (cases "ge_zero ag") (auto simp: Person_init_def)

text \<open>
  C5 (amended). When the age is a negative number, or is not a number (a string,
  \<open>None\<close>), or the email does not match the pattern, the constructors of Person,
  Student and Instructor raise and produce no instance; with a number that is not
  negative, an integer or not, and an email that matches, an instance is produced
  whatever the name is. \<open>set_email\<close> with an email that does not match raises
  ValueError and leaves the object as it was.
\<close>

theorem invalid_fields_rejected:
  "((\<exists>n. ag = PyInt n \<and> n < 0) \<or> (\<exists>m e. ag = PyFloat m e \<and> m < 0)
      \<or> (\<exists>t. ag = PyStr t) \<or> ag = PyNone \<or> \<not> validate_email em
     \<longrightarrow> isl (Person_init nm ag em) \<and> isl (Student_init nm ag em sid)
         \<and> isl (Instructor_init nm ag em iid))
   \<and> (((\<exists>n. ag = PyInt n \<and> 0 \<le> n) \<or> (\<exists>m e. ag = PyFloat m e \<and> 0 \<le> m))
        \<and> validate_email em
     \<longrightarrow> Person_init nm ag em = Inr \<lparr>name = nm, age = ag, email = em\<rparr>)
   \<and> (\<not> validate_email em \<longrightarrow>
        set_email p em = Raised (ValueError ''Invalid email format'') p)"
proof -
  have "isl (Person_init nm ag em)"
    if "(\<exists>n. ag = PyInt n \<and> n < 0) \<or> (\<exists>m e. ag = PyFloat m e \<and> m < 0)
      \<or> (\<exists>t. ag = PyStr t) \<or> ag = PyNone \<or> \<not> validate_email em"
    using that by (intro Person_init_bad) auto
  moreover have "isl (Person_init nm ag em) \<Longrightarrow>
      isl (Student_init nm ag em sid) \<and> isl (Instructor_init nm ag em iid)"
    by (cases "Person_init nm ag em") (simp_all add: Student_init_def Instructor_init_def)
  moreover have "Person_init nm ag em = Inr \<lparr>name = nm, age = ag, email = em\<rparr>"
    if "((\<exists>n. ag = PyInt n \<and> 0 \<le> n) \<or> (\<exists>m e. ag = PyFloat m e \<and> 0 \<le> m))
        \<and> validate_email em"
    using that by (auto simp: Person_init_def)
  ultimately show ?thesis
    by (auto simp: set_email_def)
qed

theorem invalid_fields_rejected_witness:
  "\<not> validate_email ''ab.com''
   \<and> isl (Person_init ''Ann'' (PyInt (- 1)) ''ab.com'')
   \<and> isl (Student_init ''Ann'' (PyInt (- 1)) ''ab.com'' ''S1'')
   \<and> isl (Instructor_init ''Ann'' (PyInt (- 1)) ''ab.com'' ''I1'')
   \<and> set_email \<lparr>name = ''Ann'', age = PyInt 20, email = ''a@b.com''\<rparr> ''ab.com''
       = Raised (ValueError ''Invalid email format'')
           \<lparr>name = ''Ann'', age = PyInt 20, email = ''a@b.com''\<rparr>
   \<and> validate_email ''a@b.com''
   \<and> Person_init [] (PyFloat 5 (- 1)) ''a@b.com''
       = Inr \<lparr>name = [], age = PyFloat 5 (- 1), email = ''a@b.com''\<rparr>"
proof -
  have bad: "\<not> validate_email ''ab.com''"
    by (simp add: email_defs)
  have good: "validate_email ''a@b.com''"
    by (simp add: email_defs)
  show ?thesis
    using bad good
      invalid_fields_rejected [where ag = "PyInt (- 1)" and em = "''ab.com''" and nm = "''Ann''"
        and sid = "''S1''" and iid = "''I1''"
        and p = "\<lparr>name = ''Ann'', age = PyInt 20, email = ''a@b.com''\<rparr>"]
      invalid_fields_rejected [where ag = "PyFloat 5 (- 1)" and em = "''a@b.com''" and nm = "[]"]
    by simp
qed

section \<open>Serialisation round trip\<close>

text \<open>
  C8. For a non-empty name, an age at least 0 and an email that matches the pattern,
  construction succeeds, and \<open>from_dict\<close> of \<open>to_dict\<close> gives an object with the same
  name, age, email and id, for a Person, for a Student with any registered courses and
  for an Instructor with any assigned courses.
\<close>

theorem valid_fields_round_trip:
  assumes "nm \<noteq> []" and "0 \<le> n" and "validate_email em"
  shows "Person_init nm (PyInt n) em = Inr \<lparr>name = nm, age = PyInt n, email = em\<rparr>
    \<and> Person_from_dict (Person_to_dict \<lparr>name = nm, age = PyInt n, email = em\<rparr>)
        = Inr \<lparr>name = nm, age = PyInt n, email = em\<rparr>
    \<and> Student_init nm (PyInt n) em sid
        = Inr \<lparr>name = nm, age = PyInt n, email = em, student_id = sid, registered_courses = []\<rparr>
    \<and> Student_from_dict
         (Student_to_dict
            (h\<lparr>student_objs := (student_objs h)(r := \<lparr>name = nm, age = PyInt n, email = em,
                 student_id = sid, registered_courses = rc\<rparr>)\<rparr>) r)
        = Inr \<lparr>name = nm, age = PyInt n, email = em, student_id = sid, registered_courses = []\<rparr>
    \<and> Instructor_init nm (PyInt n) em iid
        = Inr \<lparr>name = nm, age = PyInt n, email = em, instructor_id = iid, assigned_courses = []\<rparr>
    \<and> Instructor_from_dict
         (Instructor_to_dict
            (h\<lparr>instructor_objs := (instructor_objs h)(r := \<lparr>name = nm, age = PyInt n, email = em,
                 instructor_id = iid, assigned_courses = ac\<rparr>)\<rparr>) r)
        = Inr \<lparr>name = nm, age = PyInt n, email = em, instructor_id = iid, assigned_courses = []\<rparr>"
  using assms
  by (simp add: Person_init_def Person_from_dict_def Person_to_dict_def Student_init_def
        Student_from_dict_def Student_to_dict_def Instructor_init_def Instructor_from_dict_def
        Instructor_to_dict_def person.extend_def person_dict.extend_def)

theorem valid_fields_round_trip_witness:
  "''Ann'' \<noteq> [] \<and> (0::int) \<le> 20 \<and> validate_email ''a@b.com''
   \<and> Person_init ''Ann'' (PyInt 20) ''a@b.com''
       = Inr \<lparr>name = ''Ann'', age = PyInt 20, email = ''a@b.com''\<rparr>
   \<and> Student_from_dict
        (Student_to_dict
           (empty_heap\<lparr>student_objs := (student_objs empty_heap)(0 := \<lparr>name = ''Ann'',
              age = PyInt 20, email = ''a@b.com'', student_id = ''S1'',
              registered_courses = [0]\<rparr>)\<rparr>) 0)
       = Inr ann"
proof -
  have ok: "validate_email ''a@b.com''"
    by (simp add: email_defs)
  show ?thesis
    using ok
      valid_fields_round_trip [where nm = "''Ann''" and n = 20 and em = "''a@b.com''"
        and sid = "''S1''" and h = empty_heap and r = 0 and rc = "[0]"]
    by (simp add: ann_def)
qed

section \<open>Registering and unregistering\<close>

text \<open>
  C7, as the claim states it, fails for a student who is registered already:
  \<open>register_course\<close> is then a no-op and \<open>unregister_course\<close> removes the
  registration that was there before the two calls.
\<close>

theorem register_unregister_not_identity_when_registered:
  "registered_courses (student_objs ann_algebra_heap 0) = [0]
   \<and> enrolled_students (course_objs ann_algebra_heap 0) = [0]
   \<and> Student_register_course 0 0 ann_algebra_heap = ann_algebra_heap
   \<and> registered_courses (student_objs
        (state_of (Student_unregister_course 0 0 (Student_register_course 0 0 ann_algebra_heap))) 0) = []
   \<and> enrolled_students (course_objs
        (state_of (Student_unregister_course 0 0 (Student_register_course 0 0 ann_algebra_heap))) 0) = []"
  by (simp add: register_unfold Student_unregister_course_def ann_algebra_heap_eq heap_defs ann_def)

text \<open>
  C7 (amended). For a student s and a course c with s not yet registered in c (c is not
  in \<open>s.registered_courses\<close> and s is not in \<open>c.enrolled_students\<close>),
  \<open>register_course\<close> followed by \<open>unregister_course\<close> gives back the state before
  the calls. \<open>register_course\<close> on a course that is not in \<open>s.registered_courses\<close>
  appends it there and leaves s in \<open>c.enrolled_students\<close>; on a course that is
  there already it changes nothing.
\<close>

theorem register_then_unregister:
  "(c \<notin> set (registered_courses (student_objs h s))
      \<and> s \<notin> set (enrolled_students (course_objs h c))
     \<longrightarrow> Student_unregister_course s c (Student_register_course s c h) = Returned h)
   \<and> (c \<notin> set (registered_courses (student_objs h s))
     \<longrightarrow> registered_courses (student_objs (Student_register_course s c h) s)
           = registered_courses (student_objs h s) @ [c]
         \<and> s \<in> set (enrolled_students (course_objs (Student_register_course s c h) c)))
   \<and> (c \<in> set (registered_courses (student_objs h s))
     \<longrightarrow> Student_register_course s c h = h)"
  by (simp add: register_unfold Student_unregister_course_def set_registered_courses_def
        set_enrolled_students_def remove1_append)

theorem register_then_unregister_witness:
  "0 \<notin> set (registered_courses (student_objs empty_heap 0))
   \<and> 0 \<notin> set (enrolled_students (course_objs empty_heap 0))
   \<and> Student_unregister_course 0 0 (Student_register_course 0 0 empty_heap) = Returned empty_heap
   \<and> registered_courses (student_objs (Student_register_course 0 0 empty_heap) 0)
       = registered_courses (student_objs empty_heap 0) @ [0]
   \<and> 0 \<in> set (registered_courses (student_objs ann_algebra_heap 0))
   \<and> Student_register_course 0 0 ann_algebra_heap = ann_algebra_heap"
proof -
  have fresh: "0 \<notin> set (registered_courses (student_objs empty_heap 0))
      \<and> 0 \<notin> set (enrolled_students (course_objs empty_heap 0))"
    by (simp add: heap_defs)
  have there: "0 \<in> set (registered_courses (student_objs ann_algebra_heap 0))"
    by (simp add: ann_algebra_heap_eq)
  show ?thesis
    using fresh there
      register_then_unregister [where s = 0 and c = 0 and h = empty_heap]
      register_then_unregister [where s = 0 and c = 0 and h = ann_algebra_heap]
    by blast
qed

section \<open>Clearing the instructor through set_instructor\<close>

lemma instructors_add_course: "instructors (DataManager_add_course c st) = instructors st"
  by (simp add: DataManager_add_course_def print_def split: sum.splits)

lemma set_instructor_returns:
  "Course_set_instructor c (Some i) h = Returned (state_of (Course_set_instructor c (Some i) h))"
  by (simp add: set_instructor_unfold)

lemma load_courses_raises:
  "\<exists>cd\<in>set cds. lookup_instructor (kc_instructor_id cd) st = None \<Longrightarrow>
   raised (load_courses cds st) \<noteq> None"
proof (induction cds arbitrary: st)
  case Nil
  then show ?case by simp
next
  case (Cons cd cds)
  show ?case
  proof (cases "lookup_instructor (kc_instructor_id cd) st")
    case None
    then show ?thesis
      by (simp add: Course_set_instructor.simps(1) raised_def)
  next
    case (Some i)
    with Cons.prems have rest: "\<exists>cd\<in>set cds. lookup_instructor (kc_instructor_id cd) st = None"
      by auto
    define r where "r = fst (new_course (Course_from_dict cd) (objs st))"
    define h where "h = state_of (Course_set_instructor r (Some i)
        (snd (new_course (Course_from_dict cd) (objs st))))"
    define st' where "st' = DataManager_add_course r
         (st\<lparr>objs := h, courses := AList.update (course_id (course_objs h r)) r (courses st)\<rparr>)"
    have ret: "Course_set_instructor r (Some i) (snd (new_course (Course_from_dict cd) (objs st)))
        = Returned h"
      unfolding h_def by (rule set_instructor_returns)
    have "lookup_instructor x st' = lookup_instructor x st" for x
      by (simp add: st'_def lookup_instructor_def instructors_add_course split: option.splits)
    with rest have "\<exists>cd\<in>set cds. lookup_instructor (kc_instructor_id cd) st' = None"
      by simp
    then have "raised (load_courses cds st') \<noteq> None"
      by (rule Cons.IH)
    moreover have "load_courses (cd # cds) st = load_courses cds st'"
      using Some ret by (simp add: r_def [symmetric] st'_def)
    ultimately show ?thesis
      by simp
  qed
qed

lemma add_instructor_keys:
  "fst ` set (instructors (state_of (DataManager_add_instructor i st)))
     \<subseteq> insert (instructor_id (instructor_objs (objs st) i)) (fst ` set (instructors st))"
  by (auto simp: DataManager_add_instructor_def print_def dom_update split: sum.splits)

lemma Instructor_from_dict_id:
  "Instructor_from_dict d = Inr i \<Longrightarrow> instructor_id i = k_instructor_id d"
  by (auto simp: Instructor_from_dict_def Instructor_init_def person.extend_def
        split: sum.splits)

lemma load_instructors_keys:
  "fst ` set (instructors (state_of (load_instructors ds st)))
     \<subseteq> fst ` set (instructors st) \<union> k_instructor_id ` set ds"
proof (induction ds arbitrary: st)
  case Nil
  then show ?case by simp
next
  case (Cons d ds)
  show ?case
  proof (cases "Instructor_from_dict d")
    case (Inl e)
    then show ?thesis by auto
  next
    case (Inr i)
    let ?r = "fst (new_instructor i (objs st))"
    let ?st1 = "st\<lparr>objs := snd (new_instructor i (objs st)),
                   instructors := AList.update (instructor_id i) ?r (instructors st)\<rparr>"
    have id: "instructor_id i = k_instructor_id d"
      using Inr by (rule Instructor_from_dict_id)
    have obj: "instructor_id (instructor_objs (objs ?st1) ?r) = k_instructor_id d"
      by (simp add: new_instructor_def id)
    have k1: "fst ` set (instructors ?st1) = insert (k_instructor_id d) (fst ` set (instructors st))"
      by (simp add: id dom_update)
    show ?thesis
    proof (cases "DataManager_add_instructor ?r ?st1")
      case (Returned st2)
      have "fst ` set (instructors st2) \<subseteq> insert (k_instructor_id d) (fst ` set (instructors st))"
        using add_instructor_keys [of ?r ?st1] Returned obj k1 by auto
      moreover have "fst ` set (instructors (state_of (load_instructors ds st2)))
          \<subseteq> fst ` set (instructors st2) \<union> k_instructor_id ` set ds"
        by (rule Cons.IH)
      ultimately show ?thesis
        using Inr Returned by simp blast
    next
      case (Raised e st2)
      have "fst ` set (instructors st2) \<subseteq> insert (k_instructor_id d) (fst ` set (instructors st))"
        using add_instructor_keys [of ?r ?st1] Raised obj k1 by auto
      then show ?thesis
        using Inr Raised by auto
    qed
  qed
qed

lemma load_data_raises:
  assumes f: "files st filename = Some data" and cd: "cd \<in> set (doc_courses data)"
    and bad: "kc_instructor_id cd = None \<or> kc_instructor_id cd = Some []
          \<or> (\<exists>iid. kc_instructor_id cd = Some iid
                \<and> iid \<notin> k_instructor_id ` set (doc_instructors data))"
  shows "raised (load_data filename st) \<noteq> None"
proof (cases "load_students (doc_students data) (st\<lparr>students := []\<rparr>)")
  case (Raised e s1)
  then show ?thesis
    by (simp add: load_data_def raised_def f)
next
  case s1: (Returned st1)
  show ?thesis
  proof (cases "load_instructors (doc_instructors data) (st1\<lparr>instructors := []\<rparr>)")
    case (Raised e s2)
    then show ?thesis
      by (simp add: load_data_def raised_def f s1)
  next
    case s2: (Returned st2)
    have "fst ` set (instructors (state_of (load_instructors (doc_instructors data) (st1\<lparr>instructors := []\<rparr>))))
        \<subseteq> fst ` set (instructors (st1\<lparr>instructors := []\<rparr>)) \<union> k_instructor_id ` set (doc_instructors data)"
      by (rule load_instructors_keys)
    then have keys: "fst ` set (instructors st2) \<subseteq> k_instructor_id ` set (doc_instructors data)"
      by (simp add: s2)
    have none: "lookup_instructor (kc_instructor_id cd) (st2\<lparr>courses := []\<rparr>) = None"
    proof (cases "kc_instructor_id cd")
      case None
      then show ?thesis by (simp add: lookup_instructor_def)
    next
      case (Some iid)
      show ?thesis
      proof (cases "iid = []")
        case True
        then show ?thesis by (simp add: lookup_instructor_def Some)
      next
        case False
        with bad Some have "iid \<notin> k_instructor_id ` set (doc_instructors data)"
          by simp
        with keys have "iid \<notin> fst ` set (instructors st2)"
          by blast
        then have "map_of (instructors st2) iid = None"
          by (simp add: map_of_eq_None_iff)
        then show ?thesis
          by (simp add: lookup_instructor_def Some False)
      qed
    qed
    have "\<exists>cd\<in>set (doc_courses data).
        lookup_instructor (kc_instructor_id cd) (st2\<lparr>courses := []\<rparr>) = None"
      using cd none by blast
    then have r: "raised (load_courses (doc_courses data) (st2\<lparr>courses := []\<rparr>)) \<noteq> None"
      by (rule load_courses_raises)
    show ?thesis
    proof (cases "load_courses (doc_courses data) (st2\<lparr>courses := []\<rparr>)")
      case (Returned st3)
      with r show ?thesis by (simp add: raised_def)
    next
      case (Raised e st3)
      then show ?thesis
        by (simp add: load_data_def raised_def f s1 s2)
    qed
  qed
qed

text \<open>
  C9. \<open>c.set_instructor(None)\<close> raises AttributeError after it has set \<open>c.instructor\<close>
  to \<open>None\<close>; and \<open>load_data\<close> raises whenever the document it has read holds a
  course whose \<open>instructor_id\<close> is null, or empty, or is the id of no instructor of
  the document (the instructors mirror is rebuilt from the document before the courses
  are read).
\<close>

theorem set_instructor_None_raises:
  "Course_set_instructor c None h =
     Raised (AttributeError ''NoneType object has no attribute assigned_courses'')
       (assign_instructor_field c None h)
   \<and> instructor (course_objs (assign_instructor_field c None h) c) = None
   \<and> (files st filename = Some data \<and> cd \<in> set (doc_courses data)
       \<and> (kc_instructor_id cd = None \<or> kc_instructor_id cd = Some []
          \<or> (\<exists>iid. kc_instructor_id cd = Some iid
                \<and> iid \<notin> k_instructor_id ` set (doc_instructors data)))
      \<longrightarrow> raised (load_data filename st) \<noteq> None)"
proof (intro conjI impI)
  show "Course_set_instructor c None h =
     Raised (AttributeError ''NoneType object has no attribute assigned_courses'')
       (assign_instructor_field c None h)"
    by (rule Course_set_instructor.simps(1))
  show "instructor (course_objs (assign_instructor_field c None h) c) = None"
    by (simp add: assign_instructor_field_def)
  assume "files st filename = Some data \<and> cd \<in> set (doc_courses data)
       \<and> (kc_instructor_id cd = None \<or> kc_instructor_id cd = Some []
          \<or> (\<exists>iid. kc_instructor_id cd = Some iid
                \<and> iid \<notin> k_instructor_id ` set (doc_instructors data)))"
  then show "raised (load_data filename st) \<noteq> None"
    by (elim conjE) (rule load_data_raises)
qed

theorem set_instructor_None_raises_witness:
  "files (save_data ''snapshot.json'' ann_algebra) ''snapshot.json'' =
     Some \<lparr>doc_students = [\<lparr>k_name = ''Ann'', k_age = PyInt 20, k_email = ''a@b.com'',
                               k_student_id = ''S1'', k_registered_courses = [''C1'']\<rparr>],
           doc_instructors = [],
           doc_courses = [\<lparr>kc_course_id = ''C1'', kc_course_name = ''Algebra'',
                            kc_instructor_id = None, kc_enrolled_students = [''S1'']\<rparr>]\<rparr>
   \<and> raised (load_data ''snapshot.json'' (save_data ''snapshot.json'' ann_algebra)) \<noteq> None"
  using saved_eq
    set_instructor_None_raises [where st = "save_data ''snapshot.json'' ann_algebra"
      and filename = "''snapshot.json''"
      and data = "\<lparr>doc_students = [\<lparr>k_name = ''Ann'', k_age = PyInt 20, k_email = ''a@b.com'',
                               k_student_id = ''S1'', k_registered_courses = [''C1'']\<rparr>],
           doc_instructors = [],
           doc_courses = [\<lparr>kc_course_id = ''C1'', kc_course_name = ''Algebra'',
                            kc_instructor_id = None, kc_enrolled_students = [''S1'']\<rparr>]\<rparr>"
      and cd = "\<lparr>kc_course_id = ''C1'', kc_course_name = ''Algebra'',
                            kc_instructor_id = None, kc_enrolled_students = [''S1'']\<rparr>"]
  by simp

section \<open>The PyQt variant\<close>

text \<open>
  C10. In the PyQt variant, \<open>add_student\<close> of a course called on a student instance
  raises: the second argument of \<open>isinstance\<close> is the parameter itself, not the class.
  The course, and so its \<open>enrolled_students\<close>, is as before.
\<close>

theorem course_add_student_raises:
  "course_add_student c (QStudent s) = Raised TypeError c"
  by (simp add: course_add_student_def)

end
